theory Spec2Isabelle
  imports Main
begin

section \<open>Python values\<close>

text \<open>
  The handlers receive parsed JSON (\<open>Dict[str, Any]\<close>).  A value is one of the
  JSON shapes; an object keeps its pairs in order and a lookup takes the first pair
  with the key.  A Python \<open>str\<close> is a \<open>string\<close> whose characters are code
  points below 256, which covers every literal of the sources (the accented letters
  and the degree sign are written \<open>CHR 0xE9\<close>, \<open>CHR 0xB0\<close>, ...).
\<close>

datatype json =
    JNull
  | JBool bool
  | JInt int
  | JStr string
  | JList "json list"
  | JObj "(string \<times> json) list"

type_synonym pydict = "(string \<times> json) list"

text \<open>Truthiness, as \<open>not x\<close> and \<open>all([...])\<close> read it.\<close>

fun truthy :: "json \<Rightarrow> bool" where
  "truthy JNull = False"
| "truthy (JBool b) = b"
| "truthy (JInt i) = (i \<noteq> 0)"
| "truthy (JStr s) = (s \<noteq> [])"
| "truthy (JList xs) = (xs \<noteq> [])"
| "truthy (JObj kvs) = (kvs \<noteq> [])"

text \<open>\<open>d.get(k)\<close> and \<open>d.get(k, default)\<close>.\<close>

definition dict_get :: "pydict \<Rightarrow> string \<Rightarrow> json" where
  "dict_get d k = (case map_of d k of None \<Rightarrow> JNull | Some v \<Rightarrow> v)"

definition dict_get_default :: "pydict \<Rightarrow> string \<Rightarrow> json \<Rightarrow> json" where
  "dict_get_default d k dflt = (case map_of d k of None \<Rightarrow> dflt | Some v \<Rightarrow> v)"

text \<open>Reading a field of a JSON value that may not be an object.\<close>

fun jget :: "json \<Rightarrow> string \<Rightarrow> json option" where
  "jget (JObj kvs) k = map_of kvs k"
| "jget _ k = None"

text \<open>Following a path of keys into nested objects.\<close>

fun jpath :: "json \<Rightarrow> string list \<Rightarrow> json option" where
  "jpath v [] = Some v"
| "jpath v (k # ks) = (case jget v k of None \<Rightarrow> None | Some w \<Rightarrow> jpath w ks)"

subsection \<open>\<open>str()\<close> and \<open>repr()\<close>, as f-strings use them\<close>

definition digit_char :: "nat \<Rightarrow> char" where
  "digit_char n = char_of (48 + n)"

function str_nat :: "nat \<Rightarrow> string" where
  "str_nat n = (if n < 10 then [digit_char n] else str_nat (n div 10) @ [digit_char (n mod 10)])"
  by pat_completeness auto
termination
  by (relation "measure id") auto

definition str_int :: "int \<Rightarrow> string" where
  "str_int i = (if i < 0 then CHR ''-'' # str_nat (nat (- i)) else str_nat (nat i))"

definition hex_digit :: "nat \<Rightarrow> char" where
  "hex_digit n = (if n < 10 then char_of (48 + n) else char_of (87 + n))"

definition printable :: "char \<Rightarrow> bool" where
  "printable c = (let n = (of_char c :: nat)
     in (32 \<le> n \<and> n < 127) \<or> (161 \<le> n \<and> n \<noteq> 173))"

definition repr_char :: "char \<Rightarrow> char \<Rightarrow> string" where
  "repr_char quote c =
     (if c = quote \<or> c = CHR 0x5C then [CHR 0x5C, c]
      else if c = CHR 0x09 then [CHR 0x5C, CHR ''t'']
      else if c = CHR 0x0A then [CHR 0x5C, CHR ''n'']
      else if c = CHR 0x0D then [CHR 0x5C, CHR ''r'']
      else if printable c then [c]
      else [CHR 0x5C, CHR ''x'', hex_digit ((of_char c :: nat) div 16),
            hex_digit ((of_char c :: nat) mod 16)])"

definition repr_str :: "string \<Rightarrow> string" where
  "repr_str s =
     (let quote = (if CHR 0x27 \<in> set s \<and> CHR 0x22 \<notin> set s then CHR 0x22 else CHR 0x27)
      in [quote] @ concat (map (repr_char quote) s) @ [quote])"

fun join :: "string \<Rightarrow> string list \<Rightarrow> string" where
  "join sep [] = []"
| "join sep [x] = x"
| "join sep (x # y # ys) = x @ sep @ join sep (y # ys)"

fun py_repr :: "json \<Rightarrow> string" where
  "py_repr JNull = ''None''"
| "py_repr (JBool b) = (if b then ''True'' else ''False'')"
| "py_repr (JInt i) = str_int i"
| "py_repr (JStr s) = repr_str s"
| "py_repr (JList xs) = ''['' @ join '', '' (map py_repr xs) @ '']''"
| "py_repr (JObj kvs) =
     ''{'' @ join '', '' (map (\<lambda>kv. repr_str (fst kv) @ '': '' @ py_repr (snd kv)) kvs) @ ''}''"

fun py_str :: "json \<Rightarrow> string" where
  "py_str (JStr s) = s"
| "py_str v = py_repr v"

section \<open>The weather tool (\<open>tools/weather.py\<close>)\<close>

text \<open>
  \<open>random\<close> is a stream of raw draws: \<open>rng i\<close> is the entropy of the \<open>i\<close>-th
  call, in the order \<open>execute\<close> makes them.  \<open>randint a b\<close> maps a draw onto
  \<open>a..b\<close> and \<open>choice\<close> onto the positions of the list, so that every raw draw gives
  an outcome in range and every outcome in range comes from some draw.
  \<open>datetime.now().isoformat()\<close> is the parameter \<open>now_iso\<close>.
\<close>

definition randint :: "int \<Rightarrow> int \<Rightarrow> nat \<Rightarrow> int" where
  "randint a b raw = a + int (raw mod nat (b - a + 1))"

definition choice :: "'a list \<Rightarrow> nat \<Rightarrow> 'a" where
  "choice xs raw = xs ! (raw mod length xs)"

definition weather_tool_name :: string where
  "weather_tool_name = ''get_weather''"

definition weather_tool_parameters :: json where
  "weather_tool_parameters = JObj [
     (''type'', JStr ''object''),
     (''properties'', JObj [
        (''city'', JObj [
           (''type'', JStr ''string''),
           (''description'', JStr (''Nom de la ville pour laquelle r'' @ [CHR 0xE9]
              @ ''cup'' @ [CHR 0xE9] @ ''rer la m'' @ [CHR 0xE9] @ ''t'' @ [CHR 0xE9] @ ''o''))]),
        (''unit'', JObj [
           (''type'', JStr ''string''),
           (''enum'', JList [JStr ''celsius'', JStr ''fahrenheit'']),
           (''default'', JStr ''celsius''),
           (''description'', JStr (''Unit'' @ [CHR 0xE9] @ '' de temp'' @ [CHR 0xE9] @ ''rature''))])]),
     (''required'', JList [JStr ''city''])]"

definition weather_conditions :: "string list" where
  "weather_conditions =
     [''ensoleill'' @ [CHR 0xE9], ''nuageux'', ''pluvieux'', ''orageux'',
      ''partiellement nuageux'', ''brumeux'', ''neigeux'']"

definition deg_F :: string where
  "deg_F = [CHR 0xB0, CHR ''F'']"

definition deg_C :: string where
  "deg_C = [CHR 0xB0, CHR ''C'']"

definition weather_message :: "json \<Rightarrow> string" where
  "weather_message city =
     ''Donn'' @ [CHR 0xE9] @ ''es m'' @ [CHR 0xE9] @ ''t'' @ [CHR 0xE9] @ ''o r''
       @ [CHR 0xE9] @ ''cup'' @ [CHR 0xE9] @ ''r'' @ [CHR 0xE9] @ ''es pour '' @ py_str city"

definition execute :: "(nat \<Rightarrow> nat) \<Rightarrow> string \<Rightarrow> json \<Rightarrow> json \<Rightarrow> json" where
  "execute rng now_iso city unit =
     (let temp = (if unit = JStr ''fahrenheit'' then randint 32 95 (rng 0)
                  else randint 0 35 (rng 0));
          temp_unit = (if unit = JStr ''fahrenheit'' then deg_F else deg_C);
          weather_data = JObj [
            (''city'', city),
            (''temperature'', JInt temp),
            (''unit'', JStr temp_unit),
            (''condition'', JStr (choice weather_conditions (rng 1))),
            (''humidity'', JInt (randint 30 90 (rng 2))),
            (''wind_speed'', JInt (randint 5 30 (rng 3))),
            (''wind_unit'', JStr ''km/h''),
            (''pressure'', JInt (randint 980 1030 (rng 4))),
            (''visibility'', JInt (randint 5 15 (rng 5))),
            (''uv_index'', JInt (randint 1 10 (rng 6))),
            (''timestamp'', JStr now_iso),
            (''forecast'', JList [
               JObj [
                 (''day'', JStr ''Demain''),
                 (''high'', JInt (temp + randint (- 5) 5 (rng 7))),
                 (''low'', JInt (temp - randint 5 15 (rng 8))),
                 (''condition'', JStr (choice weather_conditions (rng 9)))],
               JObj [
                 (''day'', JStr (''Apr'' @ [CHR 0xE8] @ ''s-demain'')),
                 (''high'', JInt (temp + randint (- 8) 8 (rng 10))),
                 (''low'', JInt (temp - randint 3 12 (rng 11))),
                 (''condition'', JStr (choice weather_conditions (rng 12)))]])]
      in JObj [
           (''success'', JBool True),
           (''data'', weather_data),
           (''message'', JStr (weather_message city))])"


section \<open>Exceptions\<close>

text \<open>
  Every \<open>raise\<close> of the sources is a value.  \<open>ExpiredSignatureError\<close> and
  \<open>InvalidTokenError\<close> are PyJWT's: the first is a subclass of the second, and
  \<open>InvalidTokenError\<close> stands for every other subclass too (a malformed token, a
  wrong signature, audience or issuer).  \<open>OtherError\<close> is any other exception of
  a library call.
\<close>

datatype exn =
    ValueError string
  | AttributeError string
  | TypeError string
  | KeyError string
  | ImportError string
  | HTTPException nat string
  | ExpiredSignatureError string
  | InvalidTokenError string
  | OtherError string

text \<open>\<open>str(e)\<close>; Starlette prints an \<open>HTTPException\<close> as status, colon, detail.\<close>

fun str_exn :: "exn \<Rightarrow> string" where
  "str_exn (ValueError m) = m"
| "str_exn (AttributeError m) = m"
| "str_exn (TypeError m) = m"
| "str_exn (KeyError m) = repr_str m"
| "str_exn (ImportError m) = m"
| "str_exn (HTTPException c d) = str_nat c @ '': '' @ d"
| "str_exn (ExpiredSignatureError m) = m"
| "str_exn (InvalidTokenError m) = m"
| "str_exn (OtherError m) = m"

fun type_name :: "json \<Rightarrow> string" where
  "type_name JNull = ''NoneType''"
| "type_name (JBool b) = ''bool''"
| "type_name (JInt i) = ''int''"
| "type_name (JStr s) = ''str''"
| "type_name (JList xs) = ''list''"
| "type_name (JObj kvs) = ''dict''"

definition no_attribute :: "json \<Rightarrow> string \<Rightarrow> exn" where
  "no_attribute v a =
     AttributeError ([CHR 0x27] @ type_name v @ [CHR 0x27] @ '' object has no attribute ''
       @ [CHR 0x27] @ a @ [CHR 0x27])"

text \<open>\<open>v.get(k)\<close> and \<open>v.get(k, default)\<close> on a value that may not be a dict.\<close>

fun obj_get :: "json \<Rightarrow> string \<Rightarrow> exn + json" where
  "obj_get (JObj d) k = Inr (dict_get d k)"
| "obj_get v k = Inl (no_attribute v ''get'')"

fun obj_get_default :: "json \<Rightarrow> string \<Rightarrow> json \<Rightarrow> exn + json" where
  "obj_get_default (JObj d) k dflt = Inr (dict_get_default d k dflt)"
| "obj_get_default v k dflt = Inl (no_attribute v ''get'')"

section \<open>The stdio dispatch (\<open>server.py\<close>)\<close>

text \<open>
  A \<open>TextContent\<close> carries \<open>json.dumps(v)\<close>; the model keeps \<open>v\<close> itself in
  \<open>text_of\<close>, so that a reader of the text is a reader of \<open>v\<close>.  The MCP library
  calls the handler with a \<open>str\<close> name and a dict of arguments.  Nothing in the
  \<open>try\<close> block raises on such input, so its \<open>except\<close> branch has no case here.
\<close>

record text_content =
  content_type :: string
  text_of :: json

definition city_required :: string where
  "city_required = ''Le param'' @ [CHR 0xE8] @ ''tre 'city' est requis''"

definition handle_call_tool ::
  "(nat \<Rightarrow> nat) \<Rightarrow> string \<Rightarrow> string \<Rightarrow> pydict \<Rightarrow> text_content list" where
  "handle_call_tool rng now_iso name arguments =
     (if name = ''get_weather'' then
        (let city = dict_get_default arguments ''city'' (JStr '''');
             unit = dict_get_default arguments ''unit'' (JStr ''celsius'')
         in if \<not> truthy city then
              [\<lparr>content_type = ''text'', text_of = JObj [(''error'', JStr city_required)]\<rparr>]
            else
              [\<lparr>content_type = ''text'', text_of = execute rng now_iso city unit\<rparr>])
      else
        [\<lparr>content_type = ''text'',
          text_of = JObj [(''error'', JStr (''Outil inconnu: '' @ name))]\<rparr>])"

section \<open>The HTTP dispatch (\<open>http_server.py\<close>)\<close>

record MCPRequest =
  req_jsonrpc :: string
  req_id :: int
  req_method :: string
  req_params :: pydict

text \<open>A response: the HTTP status and the JSON body.\<close>

record http_response =
  status_code :: nat
  body :: json

definition tool_description :: string where
  "tool_description =
     ''R'' @ [CHR 0xE9] @ ''cup'' @ [CHR 0xE8] @ ''re les informations m'' @ [CHR 0xE9]
       @ ''t'' @ [CHR 0xE9] @ ''orologiques pour une ville donn'' @ [CHR 0xE9] @ ''e''"

definition handle_initialize :: "MCPRequest \<Rightarrow> json" where
  "handle_initialize request = JObj [
     (''jsonrpc'', JStr ''2.0''),
     (''id'', JInt (req_id request)),
     (''result'', JObj [
        (''protocolVersion'', JStr ''2024-11-05''),
        (''capabilities'', JObj [(''tools'', JObj [])]),
        (''serverInfo'', JObj [
           (''name'', JStr ''mcp-weather-server''),
           (''version'', JStr ''1.0.0'')])])]"

definition handle_list_tools :: "MCPRequest \<Rightarrow> json" where
  "handle_list_tools request =
     (let tools = JList [
        JObj [
          (''name'', JStr ''get_weather''),
          (''description'', JStr tool_description),
          (''inputSchema'', JObj [
             (''type'', JStr ''object''),
             (''properties'', JObj [
                (''city'', JObj [
                   (''type'', JStr ''string''),
                   (''description'', JStr ''Nom de la ville'')]),
                (''unit'', JObj [
                   (''type'', JStr ''string''),
                   (''enum'', JList [JStr ''celsius'', JStr ''fahrenheit'']),
                   (''default'', JStr ''celsius''),
                   (''description'', JStr (''Unit'' @ [CHR 0xE9] @ '' de temp'' @ [CHR 0xE9]
                      @ ''rature''))])]),
             (''required'', JList [JStr ''city''])])]]
      in JObj [
           (''jsonrpc'', JStr ''2.0''),
           (''id'', JInt (req_id request)),
           (''result'', JObj [(''tools'', tools)])])"

text \<open>
  The \<open>try\<close> block of \<open>handle_tool_call\<close>: \<open>Inl\<close> is the exception that
  reaches its \<open>except\<close>.  The \<open>text\<close> field holds \<open>json.dumps(result)\<close>; as in
  \<open>text_content\<close>, the model keeps \<open>result\<close> itself there.
\<close>

definition tool_call_body :: "(nat \<Rightarrow> nat) \<Rightarrow> string \<Rightarrow> MCPRequest \<Rightarrow> exn + json" where
  "tool_call_body rng now_iso request =
     (let tool_name = dict_get (req_params request) ''name'';
          arguments = dict_get_default (req_params request) ''arguments'' (JObj [])
      in if \<not> truthy tool_name then Inl (ValueError ''Nom de l'outil requis'')
         else if tool_name = JStr ''get_weather'' then
           (case obj_get arguments ''city'' of
              Inl e \<Rightarrow> Inl e
            | Inr city \<Rightarrow>
               (case obj_get_default arguments ''unit'' (JStr ''celsius'') of
                  Inl e \<Rightarrow> Inl e
                | Inr unit \<Rightarrow>
                   if \<not> truthy city then Inl (ValueError city_required)
                   else Inr (JObj [
                     (''jsonrpc'', JStr ''2.0''),
                     (''id'', JInt (req_id request)),
                     (''result'', JObj [
                        (''content'', JList [
                           JObj [(''type'', JStr ''text''),
                                 (''text'', execute rng now_iso city unit)]])])])))
         else Inl (ValueError (''Outil inconnu: '' @ py_str tool_name)))"

definition tool_error_message :: string where
  "tool_error_message = ''Erreur lors de l'ex'' @ [CHR 0xE9] @ ''cution de l'outil''"

definition handle_tool_call :: "(nat \<Rightarrow> nat) \<Rightarrow> string \<Rightarrow> MCPRequest \<Rightarrow> json" where
  "handle_tool_call rng now_iso request =
     (case tool_call_body rng now_iso request of
        Inr response \<Rightarrow> response
      | Inl e \<Rightarrow> JObj [
          (''jsonrpc'', JStr ''2.0''),
          (''id'', JInt (req_id request)),
          (''error'', JObj [
             (''code'', JInt (- 32603)),
             (''message'', JStr tool_error_message),
             (''data'', JStr (str_exn e))])])"

text \<open>The \<open>try\<close> block of \<open>handle_mcp_request\<close>, then the handler with its \<open>except\<close>.\<close>

definition unsupported_method :: "string \<Rightarrow> string" where
  "unsupported_method m = ''M'' @ [CHR 0xE9] @ ''thode non support'' @ [CHR 0xE9] @ ''e: '' @ m"

definition mcp_request_body :: "(nat \<Rightarrow> nat) \<Rightarrow> string \<Rightarrow> MCPRequest \<Rightarrow> exn + json" where
  "mcp_request_body rng now_iso request =
     (if req_method request = ''tools/call'' then Inr (handle_tool_call rng now_iso request)
      else if req_method request = ''tools/list'' then Inr (handle_list_tools request)
      else if req_method request = ''initialize'' then Inr (handle_initialize request)
      else Inl (HTTPException 400 (unsupported_method (req_method request))))"

definition handle_mcp_request :: "(nat \<Rightarrow> nat) \<Rightarrow> string \<Rightarrow> MCPRequest \<Rightarrow> http_response" where
  "handle_mcp_request rng now_iso request =
     (case mcp_request_body rng now_iso request of
        Inr content \<Rightarrow> \<lparr>status_code = 200, body = content\<rparr>
      | Inl e \<Rightarrow> \<lparr>status_code = 500, body = JObj [
          (''jsonrpc'', JStr ''2.0''),
          (''id'', JInt (req_id request)),
          (''error'', JObj [
             (''code'', JInt (- 32603)),
             (''message'', JStr ''Erreur interne du serveur''),
             (''data'', JStr (str_exn e))])]\<rparr>)"

section \<open>The authentication module (\<open>auth.py\<close>)\<close>

text \<open>\<open>os.getenv\<close> gives \<open>None\<close> for a variable that is not set.\<close>

record environ =
  AZURE_AD_TENANT_ID :: "string option"
  AZURE_AD_CLIENT_ID :: "string option"
  AZURE_AD_CLIENT_SECRET :: "string option"

fun env_truthy :: "string option \<Rightarrow> bool" where
  "env_truthy None = False"
| "env_truthy (Some s) = (s \<noteq> [])"

fun env_str :: "string option \<Rightarrow> string" where
  "env_str None = ''None''"
| "env_str (Some s) = s"

definition AZURE_AD_AUTHORITY :: "environ \<Rightarrow> string" where
  "AZURE_AD_AUTHORITY env = ''https://login.microsoftonline.com/'' @ env_str (AZURE_AD_TENANT_ID env)"

definition AZURE_AD_JWKS_URL :: "environ \<Rightarrow> string" where
  "AZURE_AD_JWKS_URL env = AZURE_AD_AUTHORITY env @ ''/discovery/v2.0/keys''"

text \<open>
  Times are whole microseconds since the epoch, the resolution of \<open>datetime\<close>.
  The state of an \<open>AzureADAuth\<close> is its two fields; \<open>fetches\<close> counts the
  GET requests sent to the key-discovery URL, so that a claim about them can be stated.
\<close>

type_synonym timestamp = int

record AzureADAuth =
  jwks_cache :: json
  jwks_cache_time :: "timestamp option"
  fetches :: nat

definition config_incomplete :: string where
  "config_incomplete =
     ''Configuration Azure AD incompl'' @ [CHR 0xE8] @ ''te. V'' @ [CHR 0xE9]
       @ ''rifiez les variables d'environnement.''"

definition AzureADAuth_init :: "environ \<Rightarrow> exn + AzureADAuth" where
  "AzureADAuth_init env =
     (if \<not> (env_truthy (AZURE_AD_TENANT_ID env) \<and> env_truthy (AZURE_AD_CLIENT_ID env))
      then Inl (ValueError config_incomplete)
      else Inr \<lparr>jwks_cache = JObj [], jwks_cache_time = None, fetches = 0\<rparr>)"

text \<open>
  \<open>get_jwks\<close>.  \<open>provider\<close> is what the GET gives when it is sent: the parsed body,
  or the exception of the request, of \<open>raise_for_status\<close> or of \<open>response.json()\<close>.
\<close>

definition unavailable :: exn where
  "unavailable = HTTPException 503 ''Service d'authentification indisponible''"

definition get_jwks :: "AzureADAuth \<Rightarrow> timestamp \<Rightarrow> exn + json \<Rightarrow> (exn + json) \<times> AzureADAuth" where
  "get_jwks self now provider =
     (if (case jwks_cache_time self of None \<Rightarrow> False | Some t \<Rightarrow> now - t < 3600 * 1000000)
         \<and> truthy (jwks_cache self)
      then (Inr (jwks_cache self), self)
      else (case provider of
              Inr response_json \<Rightarrow>
                (Inr response_json,
                 self\<lparr>jwks_cache := response_json, jwks_cache_time := Some now,
                      fetches := fetches self + 1\<rparr>)
            | Inl e \<Rightarrow> (Inl unavailable, self\<lparr>fetches := fetches self + 1\<rparr>)))"

text \<open>
  The library calls of \<open>get_public_key\<close> and \<open>validate_token\<close> are parameters:
  \<open>jwt.get_unverified_header\<close>, \<open>jwt.decode\<close> (token, key, audience, issuer; the
  algorithm list is the constant \<open>RS256\<close>), \<open>base64.urlsafe_b64decode\<close>, and the
  construction of the PEM bytes from the exponent and the modulus.
\<close>

record jwt_library =
  get_unverified_header :: "string \<Rightarrow> exn + pydict"
  decode :: "string \<Rightarrow> string \<Rightarrow> string option \<Rightarrow> string \<Rightarrow> exn + pydict"
  urlsafe_b64decode :: "string \<Rightarrow> exn + string"
  rsa_public_pem :: "string \<Rightarrow> string \<Rightarrow> exn + string"

text \<open>\<open>for key in v\<close>: the elements a loop over \<open>v\<close> visits.\<close>

fun iterate :: "json \<Rightarrow> exn + json list" where
  "iterate (JList xs) = Inr xs"
| "iterate (JStr s) = Inr (map (\<lambda>c. JStr [c]) s)"
| "iterate (JObj d) = Inr (map JStr (remdups (map fst d)))"
| "iterate v = Inl (TypeError ([CHR 0x27] @ type_name v @ [CHR 0x27] @ '' object is not iterable''))"

text \<open>\<open>key[k] + "=="\<close> on a dict \<open>key\<close>.\<close>

definition padded_field :: "pydict \<Rightarrow> string \<Rightarrow> exn + string" where
  "padded_field d k =
     (case map_of d k of
        None \<Rightarrow> Inl (KeyError k)
      | Some (JStr s) \<Rightarrow> Inr (s @ ''=='')
      | Some v \<Rightarrow> Inl (TypeError (''unsupported operand type(s) for +: '' @ [CHR 0x27]
                        @ type_name v @ [CHR 0x27] @ '' and 'str'' @ [CHR 0x27])))"

definition build_public_key :: "jwt_library \<Rightarrow> pydict \<Rightarrow> exn + string" where
  "build_public_key lib key =
     (case padded_field key ''n'' of
        Inl ex \<Rightarrow> Inl ex
      | Inr n_padded \<Rightarrow>
         (case urlsafe_b64decode lib n_padded of
            Inl ex \<Rightarrow> Inl ex
          | Inr n \<Rightarrow>
             (case padded_field key ''e'' of
                Inl ex \<Rightarrow> Inl ex
              | Inr e_padded \<Rightarrow>
                 (case urlsafe_b64decode lib e_padded of
                    Inl ex \<Rightarrow> Inl ex
                  | Inr e \<Rightarrow> rsa_public_pem lib e n))))"

definition key_not_found :: exn where
  "key_not_found = HTTPException 401 (''Cl'' @ [CHR 0xE9] @ '' publique non trouv'' @ [CHR 0xE9] @ ''e'')"

text \<open>
  The loop of \<open>get_public_key\<close>.  PyJWT's \<open>get_unverified_header\<close> rejects a header
  whose \<open>kid\<close> is not a \<open>str\<close>, and a \<open>str\<close> is \<open>==\<close> to an equal \<open>str\<close> only,
  so the comparison is equality of values.
\<close>

fun find_public_key :: "jwt_library \<Rightarrow> json \<Rightarrow> json list \<Rightarrow> exn + string" where
  "find_public_key lib kid [] = Inl key_not_found"
| "find_public_key lib kid (key # keys) =
     (case key of
        JObj d \<Rightarrow> if dict_get d ''kid'' = kid then build_public_key lib d
                  else find_public_key lib kid keys
      | v \<Rightarrow> Inl (no_attribute v ''get''))"

definition get_public_key :: "jwt_library \<Rightarrow> pydict \<Rightarrow> json \<Rightarrow> exn + string" where
  "get_public_key lib token_header jwks =
     (let kid = dict_get token_header ''kid''
      in if \<not> truthy kid then Inl (HTTPException 401 ''Token invalide: kid manquant'')
         else (case obj_get_default jwks ''keys'' (JList []) of
                 Inl ex \<Rightarrow> Inl ex
               | Inr ks \<Rightarrow>
                  (case iterate ks of
                     Inl ex \<Rightarrow> Inl ex
                   | Inr keys \<Rightarrow> find_public_key lib kid keys)))"

text \<open>
  \<open>payload.get("exp", 0) < now\<close>, with \<open>now\<close> a float of seconds: a number is
  compared by value (\<open>True\<close> is 1), anything else raises \<open>TypeError\<close>.
\<close>

fun before :: "json \<Rightarrow> timestamp \<Rightarrow> exn + bool" where
  "before (JInt i) now = Inr (i * 1000000 < now)"
| "before (JBool b) now = Inr ((if b then 1 else 0) * 1000000 < now)"
| "before v now = Inl (TypeError ([CHR 0x27] @ ''<'' @ [CHR 0x27]
     @ '' not supported between instances of '' @ [CHR 0x27] @ type_name v @ [CHR 0x27]
     @ '' and 'float'' @ [CHR 0x27]))"

text \<open>
  \<open>GDPRLogger.log_access\<close> hashes \<open>user_id.encode()\<close>: a subject that is not a
  \<open>str\<close> raises \<open>AttributeError\<close>.  The log line itself is not part of the model.
\<close>

definition log_access :: "json \<Rightarrow> exn + unit" where
  "log_access user_id = (case user_id of JStr s \<Rightarrow> Inr () | v \<Rightarrow> Inl (no_attribute v ''encode''))"

definition token_expired :: exn where
  "token_expired = HTTPException 401 (''Token expir'' @ [CHR 0xE9])"

definition issuer :: "environ \<Rightarrow> string" where
  "issuer env = ''https://login.microsoftonline.com/'' @ env_str (AZURE_AD_TENANT_ID env) @ ''/v2.0''"

text \<open>
  The \<open>try\<close> block of \<open>validate_token\<close>.  \<open>now\<close> is the clock read by
  \<open>get_jwks\<close>, \<open>now_exp\<close> the later one read for the expiry check.
\<close>

definition validate_token_body ::
  "jwt_library \<Rightarrow> environ \<Rightarrow> AzureADAuth \<Rightarrow> timestamp \<Rightarrow> exn + json \<Rightarrow> timestamp \<Rightarrow> string
     \<Rightarrow> (exn + pydict) \<times> AzureADAuth" where
  "validate_token_body lib env self now provider now_exp token =
     (case get_unverified_header lib token of
        Inl ex \<Rightarrow> (Inl ex, self)
      | Inr unverified_header \<Rightarrow>
         (case get_jwks self now provider of
            (Inl ex, self') \<Rightarrow> (Inl ex, self')
          | (Inr jwks, self') \<Rightarrow>
             (case get_public_key lib unverified_header jwks of
                Inl ex \<Rightarrow> (Inl ex, self')
              | Inr public_key \<Rightarrow>
                 (case decode lib token public_key (AZURE_AD_CLIENT_ID env) (issuer env) of
                    Inl ex \<Rightarrow> (Inl ex, self')
                  | Inr payload \<Rightarrow>
                     (case before (dict_get_default payload ''exp'' (JInt 0)) now_exp of
                        Inl ex \<Rightarrow> (Inl ex, self')
                      | Inr True \<Rightarrow> (Inl token_expired, self')
                      | Inr False \<Rightarrow>
                         (case log_access (dict_get_default payload ''sub'' (JStr ''unknown'')) of
                            Inl ex \<Rightarrow> (Inl ex, self')
                          | Inr u \<Rightarrow> (Inr payload, self')))))))"

text \<open>The three \<open>except\<close> clauses, in their order.\<close>

fun validate_token_except :: "exn \<Rightarrow> exn" where
  "validate_token_except (ExpiredSignatureError m) = token_expired"
| "validate_token_except (InvalidTokenError m) = HTTPException 401 ''Token invalide''"
| "validate_token_except ex = HTTPException 401 ''Erreur d'authentification''"

definition validate_token ::
  "jwt_library \<Rightarrow> environ \<Rightarrow> AzureADAuth \<Rightarrow> timestamp \<Rightarrow> exn + json \<Rightarrow> timestamp \<Rightarrow> string
     \<Rightarrow> (exn + pydict) \<times> AzureADAuth" where
  "validate_token lib env self now provider now_exp token =
     (case validate_token_body lib env self now provider now_exp token of
        (Inl ex, self') \<Rightarrow> (Inl (validate_token_except ex), self')
      | (Inr payload, self') \<Rightarrow> (Inr payload, self'))"

subsection \<open>The role guard\<close>

fun is_prefix :: "string \<Rightarrow> string \<Rightarrow> bool" where
  "is_prefix [] s = True"
| "is_prefix (c # cs) [] = False"
| "is_prefix (c # cs) (d # ds) = (c = d \<and> is_prefix cs ds)"

fun is_substring :: "string \<Rightarrow> string \<Rightarrow> bool" where
  "is_substring r [] = (r = [])"
| "is_substring r (d # ds) = (is_prefix r (d # ds) \<or> is_substring r ds)"

text \<open>\<open>r in v\<close> for a \<open>str\<close> \<open>r\<close>.\<close>

fun py_in :: "string \<Rightarrow> json \<Rightarrow> exn + bool" where
  "py_in r (JList xs) = Inr (JStr r \<in> set xs)"
| "py_in r (JStr s) = Inr (is_substring r s)"
| "py_in r (JObj d) = Inr (r \<in> set (map fst d))"
| "py_in r v = Inl (TypeError (''argument of type '' @ [CHR 0x27] @ type_name v @ [CHR 0x27]
     @ '' is not iterable''))"

definition role_required :: "string \<Rightarrow> exn" where
  "role_required required_role =
     HTTPException 403 (''R'' @ [CHR 0xF4] @ ''le requis: '' @ required_role)"

definition require_role :: "string \<Rightarrow> pydict \<Rightarrow> exn + pydict" where
  "require_role required_role user =
     (let user_roles = dict_get_default user ''roles'' (JList [])
      in case py_in required_role user_roles of
           Inl ex \<Rightarrow> Inl ex
         | Inr True \<Rightarrow> Inr user
         | Inr False \<Rightarrow>
            (case py_in ''admin'' user_roles of
               Inl ex \<Rightarrow> Inl ex
             | Inr True \<Rightarrow> Inr user
             | Inr False \<Rightarrow> Inl (role_required required_role)))"

section \<open>The authentication gate of the HTTP server\<close>

text \<open>
  \<open>http_server.py\<close> starts with \<open>from .auth import verify_azure_token\<close> inside a
  \<open>try\<close>.  The import runs the body of \<open>auth.py\<close>, which ends by building the
  global \<open>azure_auth\<close>, and then looks the name up among those the module binds.
\<close>

definition auth_module_names :: "string list" where
  "auth_module_names =
     [''os'', ''jwt'', ''httpx'', ''logging'', ''datetime'', ''timezone'', ''Optional'', ''Dict'',
      ''Any'', ''HTTPException'', ''Depends'', ''Request'', ''HTTPBearer'',
      ''HTTPAuthorizationCredentials'', ''hashlib'', ''logger'', ''AZURE_AD_TENANT_ID'',
      ''AZURE_AD_CLIENT_ID'', ''AZURE_AD_CLIENT_SECRET'', ''AZURE_AD_AUTHORITY'',
      ''AZURE_AD_JWKS_URL'', ''AZURE_AD_TOKEN_URL'', ''security'', ''GDPRLogger'', ''AzureADAuth'',
      ''azure_auth'', ''get_current_user'', ''require_role'', ''GDPRCompliance'',
      ''gdpr_compliance'']"

definition import_auth :: "environ \<Rightarrow> exn + string list" where
  "import_auth env =
     (case AzureADAuth_init env of Inl ex \<Rightarrow> Inl ex | Inr azure_auth \<Rightarrow> Inr auth_module_names)"

definition from_auth_import :: "environ \<Rightarrow> string \<Rightarrow> exn + unit" where
  "from_auth_import env name =
     (case import_auth env of
        Inl ex \<Rightarrow> Inl ex
      | Inr names \<Rightarrow>
         if name \<in> set names then Inr ()
         else Inl (ImportError (''cannot import name '' @ [CHR 0x27] @ name @ [CHR 0x27])))"

definition HAS_AZURE_AUTH :: "environ \<Rightarrow> bool" where
  "HAS_AZURE_AUTH env =
     (case from_auth_import env ''verify_azure_token'' of Inr u \<Rightarrow> True | Inl ex \<Rightarrow> False)"

text \<open>
  The name \<open>verify_azure_token\<close> as \<open>http_server.py\<close> binds it: the imported
  function (\<open>imported\<close>) when the import succeeds, the stub that returns \<open>None\<close>
  otherwise.
\<close>

definition verify_azure_token :: "environ \<Rightarrow> (string \<Rightarrow> exn + json) \<Rightarrow> string \<Rightarrow> exn + json" where
  "verify_azure_token env imported token =
     (if HAS_AZURE_AUTH env then imported token else Inr JNull)"

fun split_on :: "char \<Rightarrow> string \<Rightarrow> string list" where
  "split_on sep [] = [[]]"
| "split_on sep (c # cs) =
     (if c = sep then [] # split_on sep cs
      else (case split_on sep cs of [] \<Rightarrow> [[c]] | w # ws \<Rightarrow> (c # w) # ws))"

text \<open>
  \<open>verify_auth\<close>.  The function reads two globals of its module, the flag
  \<open>HAS_AZURE_AUTH\<close> and the name \<open>verify_azure_token\<close>: they are its first two
  arguments.  \<open>auth_header\<close> is \<open>request.headers.get('Authorization')\<close>.  The
  result \<open>Inr\<close> is the value the dependency hands to the route: \<open>True\<close> when the
  gate is off, the user information otherwise.  A header that starts with
  \<open>Bearer \<close> splits into two parts at least, so \<open>[1]\<close> is in range.
\<close>

definition verify_auth ::
  "bool \<Rightarrow> (string \<Rightarrow> exn + json) \<Rightarrow> environ \<Rightarrow> string option \<Rightarrow> exn + json" where
  "verify_auth has_azure_auth verify_token env auth_header =
     (if \<not> has_azure_auth
         \<or> \<not> (env_truthy (AZURE_AD_TENANT_ID env) \<and> env_truthy (AZURE_AD_CLIENT_ID env)
              \<and> env_truthy (AZURE_AD_CLIENT_SECRET env))
      then Inr (JBool True)
      else (case auth_header of
              None \<Rightarrow> Inl (HTTPException 401 ''Token d'authentification requis'')
            | Some h \<Rightarrow>
               if h = [] \<or> \<not> is_prefix ''Bearer '' h
               then Inl (HTTPException 401 ''Token d'authentification requis'')
               else (case verify_token (split_on CHR '' '' h ! 1) of
                       Inr user_info \<Rightarrow> Inr user_info
                     | Inl ex \<Rightarrow> Inl (HTTPException 401 ''Token invalide''))))"

text \<open>
  \<open>POST /mcp\<close> in the process that imported \<open>http_server.py\<close> under \<open>env\<close>: the
  dependency \<open>verify_auth\<close> runs first, with the globals as the import left them,
  and FastAPI answers an \<open>HTTPException\<close> of a dependency with its status and
  \<open>{"detail": ...}\<close>.
\<close>

definition post_mcp ::
  "environ \<Rightarrow> (string \<Rightarrow> exn + json) \<Rightarrow> (nat \<Rightarrow> nat) \<Rightarrow> string \<Rightarrow> string option \<Rightarrow> MCPRequest
     \<Rightarrow> http_response" where
  "post_mcp env imported rng now_iso auth_header request =
     (case verify_auth (HAS_AZURE_AUTH env) (verify_azure_token env imported) env auth_header of
        Inr auth \<Rightarrow> handle_mcp_request rng now_iso request
      | Inl (HTTPException c d) \<Rightarrow> \<lparr>status_code = c, body = JObj [(''detail'', JStr d)]\<rparr>
      | Inl ex \<Rightarrow> \<lparr>status_code = 500, body = JStr ''Internal Server Error''\<rparr>)"

section \<open>Notions used in the statements\<close>

text \<open>
  The error envelope of \<open>handle_tool_call\<close>, and the \<open>str(e)\<close> it carries when the
  tool name is not \<open>get_weather\<close>.
\<close>

definition unknown_tool_data :: "json \<Rightarrow> string" where
  "unknown_tool_data tool_name =
     (if truthy tool_name then ''Outil inconnu: '' @ py_str tool_name
      else ''Nom de l'outil requis'')"

definition tool_error :: "int \<Rightarrow> string \<Rightarrow> json" where
  "tool_error i data = JObj [
     (''jsonrpc'', JStr ''2.0''),
     (''id'', JInt i),
     (''error'', JObj [
        (''code'', JInt (- 32603)),
        (''message'', JStr tool_error_message),
        (''data'', JStr data)])]"

text \<open>The error envelope of the \<open>except\<close> of \<open>handle_mcp_request\<close>.\<close>

definition internal_error :: "int \<Rightarrow> string \<Rightarrow> json" where
  "internal_error i data = JObj [
     (''jsonrpc'', JStr ''2.0''),
     (''id'', JInt i),
     (''error'', JObj [
        (''code'', JInt (- 32603)),
        (''message'', JStr ''Erreur interne du serveur''),
        (''data'', JStr data)])]"

text \<open>
  The cache is fresh at \<open>now\<close> when \<open>get_jwks\<close> would answer from it: it has a
  timestamp less than 3600 seconds old and the cached value is not empty.
\<close>

definition cache_fresh :: "AzureADAuth \<Rightarrow> timestamp \<Rightarrow> bool" where
  "cache_fresh self now =
     ((case jwks_cache_time self of None \<Rightarrow> False | Some t \<Rightarrow> now - t < 3600 * 1000000)
      \<and> truthy (jwks_cache self))"

text \<open>
  A key set that is a well-formed answer of the discovery endpoint (an object whose
  \<open>keys\<close> is a list of objects) and in which no key has the identifier \<open>kid\<close>.
\<close>

definition kid_absent :: "json \<Rightarrow> json \<Rightarrow> bool" where
  "kid_absent kid jwks =
     (case jwks of
        JObj d \<Rightarrow>
          (case dict_get_default d ''keys'' (JList []) of
             JList keys \<Rightarrow>
               list_all (\<lambda>key. case key of JObj kd \<Rightarrow> dict_get kd ''kid'' \<noteq> kid | _ \<Rightarrow> False) keys
           | _ \<Rightarrow> False)
      | _ \<Rightarrow> False)"

text \<open>The roles of a payload whose \<open>roles\<close> claim is a list, or is absent.\<close>

definition roles_of :: "pydict \<Rightarrow> json list option" where
  "roles_of user =
     (case dict_get_default user ''roles'' (JList []) of JList rs \<Rightarrow> Some rs | _ \<Rightarrow> None)"

section \<open>Example values\<close>

text \<open>
  A small stand-in for the libraries, to run the validation on concrete tokens.  A token
  reads \<open>kid.tag\<close>: \<open>kid\<close> is the key identifier of its header, and \<open>tag\<close> says
  what \<open>jwt.decode\<close> finds.
\<close>

definition example_key :: "string \<Rightarrow> json" where
  "example_key kid = JObj [(''kid'', JStr kid), (''kty'', JStr ''RSA''),
     (''n'', JStr ''AQAB''), (''e'', JStr ''AQAB'')]"

definition example_jwks :: "string list \<Rightarrow> json" where
  "example_jwks kids = JObj [(''keys'', JList (map example_key kids))]"

definition example_payload :: "int \<Rightarrow> pydict" where
  "example_payload e = [(''sub'', JStr ''user-1''), (''exp'', JInt e), (''roles'', JList [JStr ''reader''])]"

definition token_tag :: "string \<Rightarrow> string" where
  "token_tag token = drop 1 (dropWhile (\<lambda>c. c \<noteq> CHR ''.'') token)"

definition example_lib :: jwt_library where
  "example_lib = \<lparr>
     get_unverified_header = (\<lambda>token.
        if CHR ''.'' \<notin> set token then Inl (InvalidTokenError ''Not enough segments'')
        else Inr [(''alg'', JStr ''RS256''), (''kid'', JStr (takeWhile (\<lambda>c. c \<noteq> CHR ''.'') token))]),
     decode = (\<lambda>token key audience iss.
        if token_tag token = ''bad-signature''
          then Inl (InvalidTokenError ''Signature verification failed'')
        else if token_tag token = ''expired''
          then Inl (ExpiredSignatureError ''Signature has expired'')
        else Inr (example_payload 1000)),
     urlsafe_b64decode = (\<lambda>s. Inr s),
     rsa_public_pem = (\<lambda>e n. Inr (''PEM '' @ n))\<rparr>"

definition example_env :: environ where
  "example_env = \<lparr>AZURE_AD_TENANT_ID = Some ''tenant'', AZURE_AD_CLIENT_ID = Some ''client'',
     AZURE_AD_CLIENT_SECRET = Some ''secret''\<rparr>"

definition cached_k1 :: AzureADAuth where
  "cached_k1 = \<lparr>jwks_cache = example_jwks [''k1''], jwks_cache_time = Some 0, fetches = 0\<rparr>"

definition empty_cache :: AzureADAuth where
  "empty_cache = \<lparr>jwks_cache = JObj [], jwks_cache_time = None, fetches = 0\<rparr>"

definition cached_nothing :: AzureADAuth where
  "cached_nothing = \<lparr>jwks_cache = JObj [], jwks_cache_time = Some 0, fetches = 0\<rparr>"

definition fetched_k1 :: AzureADAuth where
  "fetched_k1 = \<lparr>jwks_cache = example_jwks [''k1''], jwks_cache_time = Some 1000000, fetches = 1\<rparr>"

section \<open>Properties of the weather tool\<close>

lemma randint_range: "a \<le> b \<Longrightarrow> a \<le> randint a b raw \<and> randint a b raw \<le> b"
proof -
  assume ab: "a \<le> b"
  then have pos: "0 < nat (b - a + 1)" by simp
  have "raw mod nat (b - a + 1) < nat (b - a + 1)"
    using pos by (rule mod_less_divisor)
  then have "int (raw mod nat (b - a + 1)) < b - a + 1"
    using ab by linarith
  then show ?thesis
    unfolding randint_def by simp
qed

lemma randint_onto: "a \<le> t \<Longrightarrow> t \<le> b \<Longrightarrow> randint a b (nat (t - a)) = t"
  unfolding randint_def by simp

text \<open>
  Claim C10.  For every city and every unit, and for every outcome of the random
  draws, \<open>execute\<close> returns \<open>success = True\<close> and \<open>data.city\<close> equal to the city it
  was given.  When the unit is anything but \<open>"fahrenheit"\<close> (inside the declared
  enum or not: nothing validates it), \<open>data.unit\<close> is the degree sign followed by
  \<open>C\<close> and the temperature lies between 0 and 35 inclusive; when the unit is
  \<open>"fahrenheit"\<close>, \<open>data.unit\<close> is the degree sign followed by \<open>F\<close> and the
  temperature lies between 32 and 95 inclusive.
\<close>

theorem execute_result:
  "jpath (execute rng now_iso city unit) [''success''] = Some (JBool True)
   \<and> jpath (execute rng now_iso city unit) [''data'', ''city''] = Some city
   \<and> (unit \<noteq> JStr ''fahrenheit'' \<longrightarrow>
        jpath (execute rng now_iso city unit) [''data'', ''unit''] = Some (JStr deg_C)
        \<and> (\<exists>t. jpath (execute rng now_iso city unit) [''data'', ''temperature''] = Some (JInt t)
               \<and> 0 \<le> t \<and> t \<le> 35))
   \<and> (unit = JStr ''fahrenheit'' \<longrightarrow>
        jpath (execute rng now_iso city unit) [''data'', ''unit''] = Some (JStr deg_F)
        \<and> (\<exists>t. jpath (execute rng now_iso city unit) [''data'', ''temperature''] = Some (JInt t)
               \<and> 32 \<le> t \<and> t \<le> 95))"
  using randint_range [of 0 35 "rng 0"] randint_range [of 32 95 "rng 0"]
  by (simp add: execute_def Let_def)

theorem execute_result_witness:
  "JStr ''kelvin'' \<noteq> JStr ''fahrenheit''
   \<and> jpath (execute (\<lambda>i. 40) ''2025-01-01T00:00:00'' (JStr ''Paris'') (JStr ''kelvin''))
        [''data'', ''temperature''] = Some (JInt 4)
   \<and> jpath (execute (\<lambda>i. 40) ''2025-01-01T00:00:00'' (JStr ''Paris'') (JStr ''fahrenheit''))
        [''data'', ''unit''] = Some (JStr deg_F)"
  using execute_result [of "\<lambda>i. 40" "''2025-01-01T00:00:00''" "JStr ''Paris''" "JStr ''kelvin''"]
    execute_result [of "\<lambda>i. 40" "''2025-01-01T00:00:00''" "JStr ''Paris''" "JStr ''fahrenheit''"]
  by (simp add: execute_def randint_def)

section \<open>Properties of the dispatch\<close>

lemma tool_call_body_result:
  "tool_call_body rng now_iso request = Inr r \<Longrightarrow>
     jget r ''jsonrpc'' = Some (JStr ''2.0'') \<and> jget r ''id'' = Some (JInt (req_id request))
     \<and> jget r ''result'' \<noteq> None \<and> jget r ''error'' = None"
  by (auto simp: tool_call_body_def Let_def split: if_splits sum.splits)

lemma handle_tool_call_envelope:
  "jget (handle_tool_call rng now_iso request) ''id'' = Some (JInt (req_id request))
   \<and> (jget (handle_tool_call rng now_iso request) ''result'' = None)
       \<noteq> (jget (handle_tool_call rng now_iso request) ''error'' = None)"
proof (cases "tool_call_body rng now_iso request")
  case (Inl e)
  then show ?thesis by (simp add: handle_tool_call_def)
next
  case (Inr r)
  then show ?thesis
    using tool_call_body_result [OF Inr] by (auto simp add: handle_tool_call_def)
qed

text \<open>
  Claim C8.  For every request that reaches the \<open>POST /mcp\<close> handler, the body of
  the response carries an \<open>id\<close> equal to the request's \<open>id\<close>, and exactly one of
  \<open>result\<close> and \<open>error\<close> is present in it.  This covers the results of the three
  supported methods, the error of a failed tool call, and the HTTP 500 envelope of
  the handler's own \<open>except\<close>.
\<close>

theorem response_echoes_id:
  "jget (body (handle_mcp_request rng now_iso request)) ''id'' = Some (JInt (req_id request))
   \<and> (jget (body (handle_mcp_request rng now_iso request)) ''result'' = None)
       \<noteq> (jget (body (handle_mcp_request rng now_iso request)) ''error'' = None)"
  using handle_tool_call_envelope [of rng now_iso request]
  by (simp add: handle_mcp_request_def mcp_request_body_def handle_list_tools_def
      handle_initialize_def Let_def)

theorem response_echoes_id_witness:
  "jget (body (handle_mcp_request (\<lambda>i. 0) ''2025-01-01T00:00:00''
      \<lparr>req_jsonrpc = ''2.0'', req_id = 7, req_method = ''resources/list'', req_params = []\<rparr>))
     ''id'' = Some (JInt 7)
   \<and> jget (body (handle_mcp_request (\<lambda>i. 0) ''2025-01-01T00:00:00''
      \<lparr>req_jsonrpc = ''2.0'', req_id = 7, req_method = ''resources/list'', req_params = []\<rparr>))
     ''result'' = None"
  using response_echoes_id [of "\<lambda>i. 0" "''2025-01-01T00:00:00''"
      "\<lparr>req_jsonrpc = ''2.0'', req_id = 7, req_method = ''resources/list'', req_params = []\<rparr>"]
  by (simp add: handle_mcp_request_def mcp_request_body_def)

lemma handle_tool_call_unknown:
  "dict_get (req_params request) ''name'' \<noteq> JStr ''get_weather'' \<Longrightarrow>
     handle_tool_call rng now_iso request =
       tool_error (req_id request) (unknown_tool_data (dict_get (req_params request) ''name''))"
  by (simp add: handle_tool_call_def tool_call_body_def tool_error_def unknown_tool_data_def Let_def)

text \<open>
  Claim C7.  A call whose tool name is not the registered \<open>get_weather\<close> yields an
  error object, as a returned value, on both paths.  On the stdio path the handler
  returns one text content whose JSON is \<open>{"error": "Outil inconnu: <name>"}\<close>.  On
  the HTTP path, for a \<open>tools/call\<close> request whose \<open>params.name\<close> is anything but
  \<open>"get_weather"\<close> (absent included), the response is HTTP 200 with a JSON-RPC body
  that has an \<open>error\<close> member and no \<open>result\<close>.
\<close>

theorem unknown_tool_yields_error:
  "(name \<noteq> ''get_weather'' \<longrightarrow>
      handle_call_tool rng now_iso name arguments =
        [\<lparr>content_type = ''text'',
          text_of = JObj [(''error'', JStr (''Outil inconnu: '' @ name))]\<rparr>])
   \<and> (req_method request = ''tools/call''
        \<and> dict_get (req_params request) ''name'' \<noteq> JStr ''get_weather'' \<longrightarrow>
      handle_mcp_request rng now_iso request =
        \<lparr>status_code = 200,
         body = tool_error (req_id request)
                  (unknown_tool_data (dict_get (req_params request) ''name''))\<rparr>
      \<and> jget (body (handle_mcp_request rng now_iso request)) ''error'' \<noteq> None
      \<and> jget (body (handle_mcp_request rng now_iso request)) ''result'' = None)"
proof (intro conjI impI)
  assume "name \<noteq> ''get_weather''"
  then show "handle_call_tool rng now_iso name arguments =
      [\<lparr>content_type = ''text'',
        text_of = JObj [(''error'', JStr (''Outil inconnu: '' @ name))]\<rparr>]"
    by (simp add: handle_call_tool_def)
next
  assume a: "req_method request = ''tools/call''
      \<and> dict_get (req_params request) ''name'' \<noteq> JStr ''get_weather''"
  then have tc: "handle_tool_call rng now_iso request =
      tool_error (req_id request) (unknown_tool_data (dict_get (req_params request) ''name''))"
    by (simp add: handle_tool_call_unknown)
  show r: "handle_mcp_request rng now_iso request =
      \<lparr>status_code = 200,
       body = tool_error (req_id request)
                (unknown_tool_data (dict_get (req_params request) ''name''))\<rparr>"
    using a tc by (simp add: handle_mcp_request_def mcp_request_body_def)
  show "jget (body (handle_mcp_request rng now_iso request)) ''error'' \<noteq> None"
    by (simp add: r tool_error_def)
  show "jget (body (handle_mcp_request rng now_iso request)) ''result'' = None"
    by (simp add: r tool_error_def)
qed

theorem unknown_tool_yields_error_witness:
  "''get_time'' \<noteq> ''get_weather''
   \<and> handle_call_tool (\<lambda>i. 0) ''2025-01-01T00:00:00'' ''get_time'' [] =
       [\<lparr>content_type = ''text'', text_of = JObj [(''error'', JStr ''Outil inconnu: get_time'')]\<rparr>]
   \<and> dict_get [(''name'', JStr ''get_time'')] ''name'' \<noteq> JStr ''get_weather''
   \<and> handle_mcp_request (\<lambda>i. 0) ''2025-01-01T00:00:00''
       \<lparr>req_jsonrpc = ''2.0'', req_id = 3, req_method = ''tools/call'',
        req_params = [(''name'', JStr ''get_time'')]\<rparr> =
       \<lparr>status_code = 200, body = tool_error 3 ''Outil inconnu: get_time''\<rparr>"
  using unknown_tool_yields_error [of "''get_time''" "\<lambda>i. 0" "''2025-01-01T00:00:00''" "[]"
      "\<lparr>req_jsonrpc = ''2.0'', req_id = 3, req_method = ''tools/call'',
        req_params = [(''name'', JStr ''get_time'')]\<rparr>"]
  by (simp add: dict_get_def unknown_tool_data_def)

text \<open>
  The \<open>else\<close> branch of \<open>handle_mcp_request\<close> raises an HTTP 400 exception that
  names the method, but it does so inside the function's own \<open>try\<close>: the
  \<open>except Exception\<close> below catches it, and what leaves the handler for any
  unsupported method is the internal-error envelope with the text of the 400 as data.
\<close>

lemma unsupported_method_raises_400:
  "req_method request \<noteq> ''initialize'' \<Longrightarrow> req_method request \<noteq> ''tools/list''
   \<Longrightarrow> req_method request \<noteq> ''tools/call''
   \<Longrightarrow> mcp_request_body rng now_iso request
         = Inl (HTTPException 400 (unsupported_method (req_method request)))"
  by (simp add: mcp_request_body_def)

lemma unsupported_method_swallowed:
  "req_method request \<noteq> ''initialize'' \<Longrightarrow> req_method request \<noteq> ''tools/list''
   \<Longrightarrow> req_method request \<noteq> ''tools/call''
   \<Longrightarrow> handle_mcp_request rng now_iso request =
         \<lparr>status_code = 500,
          body = internal_error (req_id request)
                   (str_exn (HTTPException 400 (unsupported_method (req_method request))))\<rparr>"
  by (simp add: handle_mcp_request_def unsupported_method_raises_400 internal_error_def)

text \<open>
  Claim C5, at its failing input.  The request has the unsupported method
  \<open>resources/list\<close>.  The claim asks for a method-not-found error, code \<open>-32601\<close>.
  The \<open>try\<close> block raises the HTTP 400 exception that says the method is not
  supported; the handler's own \<open>except\<close> catches it and answers HTTP 500 with the
  internal-error code \<open>-32603\<close> and the message \<open>Erreur interne du serveur\<close>, the
  text of the 400 being the data.  The caller is told of a server fault, not of an
  unknown method.
\<close>

theorem unsupported_method_reported_internal:
  "mcp_request_body (\<lambda>i. 0) ''2025-01-01T00:00:00''
     \<lparr>req_jsonrpc = ''2.0'', req_id = 7, req_method = ''resources/list'', req_params = []\<rparr>
     = Inl (HTTPException 400 (unsupported_method ''resources/list''))
   \<and> handle_mcp_request (\<lambda>i. 0) ''2025-01-01T00:00:00''
     \<lparr>req_jsonrpc = ''2.0'', req_id = 7, req_method = ''resources/list'', req_params = []\<rparr> =
     \<lparr>status_code = 500,
      body = internal_error 7 (str_exn (HTTPException 400 (unsupported_method ''resources/list'')))\<rparr>
   \<and> jpath (body (handle_mcp_request (\<lambda>i. 0) ''2025-01-01T00:00:00''
        \<lparr>req_jsonrpc = ''2.0'', req_id = 7, req_method = ''resources/list'', req_params = []\<rparr>))
        [''error'', ''code''] = Some (JInt (- 32603))
   \<and> jpath (body (handle_mcp_request (\<lambda>i. 0) ''2025-01-01T00:00:00''
        \<lparr>req_jsonrpc = ''2.0'', req_id = 7, req_method = ''resources/list'', req_params = []\<rparr>))
        [''error'', ''code''] \<noteq> Some (JInt (- 32601))"
  by (simp add: handle_mcp_request_def mcp_request_body_def internal_error_def)

text \<open>The city check of the two paths, for any falsy city.\<close>

lemma handle_call_tool_no_city:
  "\<not> truthy (dict_get_default arguments ''city'' (JStr '''')) \<Longrightarrow>
     handle_call_tool rng now_iso ''get_weather'' arguments =
       [\<lparr>content_type = ''text'', text_of = JObj [(''error'', JStr city_required)]\<rparr>]"
  by (simp add: handle_call_tool_def Let_def)

lemma handle_call_tool_city:
  "truthy (dict_get_default arguments ''city'' (JStr '''')) \<Longrightarrow>
     handle_call_tool rng now_iso ''get_weather'' arguments =
       [\<lparr>content_type = ''text'',
         text_of = execute rng now_iso (dict_get_default arguments ''city'' (JStr ''''))
                     (dict_get_default arguments ''unit'' (JStr ''celsius''))\<rparr>]"
  by (simp add: handle_call_tool_def Let_def)

lemma handle_tool_call_no_city:
  "dict_get (req_params request) ''name'' = JStr ''get_weather'' \<Longrightarrow>
   dict_get_default (req_params request) ''arguments'' (JObj []) = JObj arguments \<Longrightarrow>
   \<not> truthy (dict_get arguments ''city'') \<Longrightarrow>
     handle_tool_call rng now_iso request = tool_error (req_id request) city_required"
  by (simp add: handle_tool_call_def tool_call_body_def tool_error_def Let_def)

text \<open>
  Claim C6, as stated, fails: with no city, neither path returns a \<open>success: false\<close>
  flag.  The stdio path returns the JSON \<open>{"error": ...}\<close> and the HTTP path a
  JSON-RPC error object; no \<open>success\<close> member is in either.
\<close>

theorem missing_city_counterexample:
  "map text_of (handle_call_tool (\<lambda>i. 0) ''2025-01-01T00:00:00'' ''get_weather'' []) =
     [JObj [(''error'', JStr city_required)]]
   \<and> jget (JObj [(''error'', JStr city_required)]) ''success'' = None
   \<and> handle_tool_call (\<lambda>i. 0) ''2025-01-01T00:00:00''
       \<lparr>req_jsonrpc = ''2.0'', req_id = 2, req_method = ''tools/call'',
        req_params = [(''name'', JStr ''get_weather''), (''arguments'', JObj [])]\<rparr> =
       tool_error 2 city_required
   \<and> jget (tool_error 2 city_required) ''success'' = None
   \<and> jpath (tool_error 2 city_required) [''error'', ''success''] = None"
  by (simp add: handle_call_tool_def handle_tool_call_def tool_call_body_def tool_error_def
      dict_get_def dict_get_default_def)

text \<open>
  Claim C6, amended.  For every \<open>get_weather\<close> call whose arguments have the
  \<open>city\<close> field absent or empty, the call returns a failure value and raises nothing.
  On the stdio path it is one text content whose JSON is
  \<open>{"error": "Le parametre 'city' est requis"}\<close>; on the HTTP path it is the JSON-RPC
  error object with code \<open>-32603\<close> and that message as data.  Neither has a
  \<open>success\<close> member, and each differs from the success answer of the same path, which
  has \<open>success = True\<close> (stdio) or a \<open>result\<close> member (HTTP).  The failure does not
  depend on the random draws or on the clock: the check comes before the weather tool
  runs.
\<close>

theorem missing_city_failure:
  "(map_of arguments ''city'' = None \<or> map_of arguments ''city'' = Some (JStr '''') \<longrightarrow>
      handle_call_tool rng now_iso ''get_weather'' arguments =
        [\<lparr>content_type = ''text'', text_of = JObj [(''error'', JStr city_required)]\<rparr>]
      \<and> jget (JObj [(''error'', JStr city_required)]) ''success'' = None
      \<and> (\<forall>rng' now_iso' city unit.
            jget (execute rng' now_iso' city unit) ''success'' = Some (JBool True)
            \<and> jget (execute rng' now_iso' city unit) ''error'' = None))
   \<and> (dict_get (req_params request) ''name'' = JStr ''get_weather''
        \<and> dict_get_default (req_params request) ''arguments'' (JObj []) = JObj arguments
        \<and> (map_of arguments ''city'' = None \<or> map_of arguments ''city'' = Some (JStr '''')) \<longrightarrow>
      handle_tool_call rng now_iso request = tool_error (req_id request) city_required
      \<and> jget (tool_error (req_id request) city_required) ''result'' = None
      \<and> jget (tool_error (req_id request) city_required) ''success'' = None
      \<and> jpath (tool_error (req_id request) city_required) [''error'', ''data'']
          = Some (JStr city_required))"
proof (intro conjI impI)
  assume a: "map_of arguments ''city'' = None \<or> map_of arguments ''city'' = Some (JStr '''')"
  then have "\<not> truthy (dict_get_default arguments ''city'' (JStr ''''))"
    by (auto simp: dict_get_default_def)
  then show "handle_call_tool rng now_iso ''get_weather'' arguments =
      [\<lparr>content_type = ''text'', text_of = JObj [(''error'', JStr city_required)]\<rparr>]"
    by (rule handle_call_tool_no_city)
  show "jget (JObj [(''error'', JStr city_required)]) ''success'' = None"
    by simp
  show "\<forall>rng' now_iso' city unit.
      jget (execute rng' now_iso' city unit) ''success'' = Some (JBool True)
      \<and> jget (execute rng' now_iso' city unit) ''error'' = None"
    by (simp add: execute_def Let_def)
next
  assume b: "dict_get (req_params request) ''name'' = JStr ''get_weather''
      \<and> dict_get_default (req_params request) ''arguments'' (JObj []) = JObj arguments
      \<and> (map_of arguments ''city'' = None \<or> map_of arguments ''city'' = Some (JStr ''''))"
  then have "\<not> truthy (dict_get arguments ''city'')"
    by (auto simp: dict_get_def)
  with b show "handle_tool_call rng now_iso request = tool_error (req_id request) city_required"
    by (simp add: handle_tool_call_no_city)
  show "jget (tool_error (req_id request) city_required) ''result'' = None"
    by (simp add: tool_error_def)
  show "jget (tool_error (req_id request) city_required) ''success'' = None"
    by (simp add: tool_error_def)
  show "jpath (tool_error (req_id request) city_required) [''error'', ''data'']
      = Some (JStr city_required)"
    by (simp add: tool_error_def)
qed

theorem missing_city_failure_witness:
  "(map_of [(''city'', JStr ''''), (''unit'', JStr ''celsius'')] ''city'' = Some (JStr ''''))
   \<and> handle_call_tool (\<lambda>i. 40) ''2025-01-01T00:00:00'' ''get_weather''
        [(''city'', JStr ''''), (''unit'', JStr ''celsius'')] =
       [\<lparr>content_type = ''text'', text_of = JObj [(''error'', JStr city_required)]\<rparr>]
   \<and> handle_tool_call (\<lambda>i. 40) ''2025-01-01T00:00:00''
        \<lparr>req_jsonrpc = ''2.0'', req_id = 5, req_method = ''tools/call'',
         req_params = [(''name'', JStr ''get_weather''),
                       (''arguments'', JObj [(''city'', JStr ''''), (''unit'', JStr ''celsius'')])]\<rparr> =
       tool_error 5 city_required"
  using missing_city_failure [of "[(''city'', JStr ''''), (''unit'', JStr ''celsius'')]"
      "\<lambda>i. 40" "''2025-01-01T00:00:00''"
      "\<lparr>req_jsonrpc = ''2.0'', req_id = 5, req_method = ''tools/call'',
         req_params = [(''name'', JStr ''get_weather''),
                       (''arguments'', JObj [(''city'', JStr ''''), (''unit'', JStr ''celsius'')])]\<rparr>"]
  by (simp add: dict_get_def dict_get_default_def)

section \<open>Properties of the authentication gate\<close>

lemma verify_azure_token_not_exported: "''verify_azure_token'' \<notin> set auth_module_names"
  by (simp add: auth_module_names_def)

lemma import_never_succeeds: "HAS_AZURE_AUTH env = False"
  using verify_azure_token_not_exported
  by (auto simp: HAS_AZURE_AUTH_def from_auth_import_def import_auth_def split: sum.splits)

text \<open>
  The body of \<open>verify_auth\<close> does what its docstring says once the flag is set: a
  missing header, or one without the \<open>Bearer \<close> prefix, gives HTTP 401, and the gate
  is skipped when the flag is off or a variable is missing.
\<close>

lemma verify_auth_rejects:
  "has_azure_auth \<Longrightarrow> env_truthy (AZURE_AD_TENANT_ID env) \<Longrightarrow> env_truthy (AZURE_AD_CLIENT_ID env)
   \<Longrightarrow> env_truthy (AZURE_AD_CLIENT_SECRET env)
   \<Longrightarrow> auth_header = None \<or> (\<exists>h. auth_header = Some h \<and> \<not> is_prefix ''Bearer '' h)
   \<Longrightarrow> verify_auth has_azure_auth verify_token env auth_header
         = Inl (HTTPException 401 ''Token d'authentification requis'')"
  by (auto simp: verify_auth_def)

lemma verify_auth_skips:
  "\<not> has_azure_auth \<or> \<not> env_truthy (AZURE_AD_TENANT_ID env)
     \<or> \<not> env_truthy (AZURE_AD_CLIENT_ID env) \<or> \<not> env_truthy (AZURE_AD_CLIENT_SECRET env)
   \<Longrightarrow> verify_auth has_azure_auth verify_token env auth_header = Inr (JBool True)"
  by (auto simp: verify_auth_def)

lemma post_mcp_never_gated:
  "post_mcp env imported rng now_iso auth_header request = handle_mcp_request rng now_iso request"
  by (simp add: post_mcp_def verify_auth_def import_never_succeeds)

text \<open>
  Claim C1, at its failing input.  The three identity-provider variables are set and
  the request has no \<open>Authorization\<close> header.  The claim asks for HTTP 401 before
  dispatch.  The code lets the request through: \<open>auth.py\<close> binds no name
  \<open>verify_azure_token\<close>, the import at the top of \<open>http_server.py\<close> raises
  \<open>ImportError\<close>, \<open>HAS_AZURE_AUTH\<close> is \<open>False\<close>, and \<open>verify_auth\<close> returns
  \<open>True\<close>; the \<open>initialize\<close> request is answered with HTTP 200.
\<close>

theorem gate_skipped_with_configuration:
  "HAS_AZURE_AUTH \<lparr>AZURE_AD_TENANT_ID = Some ''tenant'', AZURE_AD_CLIENT_ID = Some ''client'',
      AZURE_AD_CLIENT_SECRET = Some ''secret''\<rparr> = False
   \<and> post_mcp \<lparr>AZURE_AD_TENANT_ID = Some ''tenant'', AZURE_AD_CLIENT_ID = Some ''client'',
      AZURE_AD_CLIENT_SECRET = Some ''secret''\<rparr>
      (\<lambda>token. Inl (InvalidTokenError ''Not enough segments'')) (\<lambda>i. 0) ''2025-01-01T00:00:00'' None
      \<lparr>req_jsonrpc = ''2.0'', req_id = 1, req_method = ''initialize'', req_params = []\<rparr> =
     \<lparr>status_code = 200,
      body = handle_initialize
        \<lparr>req_jsonrpc = ''2.0'', req_id = 1, req_method = ''initialize'', req_params = []\<rparr>\<rparr>"
  by (simp add: post_mcp_def verify_auth_def HAS_AZURE_AUTH_def from_auth_import_def
      import_auth_def AzureADAuth_init_def auth_module_names_def handle_mcp_request_def
      mcp_request_body_def)

section \<open>Properties of the role guard\<close>

lemma require_role_list:
  "dict_get_default user ''roles'' (JList []) = JList roles \<Longrightarrow>
     require_role required_role user =
       (if JStr required_role \<in> set roles \<or> JStr ''admin'' \<in> set roles then Inr user
        else Inl (role_required required_role))"
  by (auto simp: require_role_def Let_def split: bool.splits)

text \<open>
  Claim C9.  For every payload whose \<open>roles\<close> claim is a list (or is absent, which
  reads as the empty list) and every required role, the guard returns the payload if
  and only if the list contains the required role or \<open>admin\<close>; otherwise it fails
  with the HTTP 403 exception that names the required role.
\<close>

theorem require_role_iff:
  "roles_of user = Some roles \<longrightarrow>
     (require_role required_role user = Inr user
        \<longleftrightarrow> JStr required_role \<in> set roles \<or> JStr ''admin'' \<in> set roles)
     \<and> (\<not> (JStr required_role \<in> set roles \<or> JStr ''admin'' \<in> set roles) \<longrightarrow>
          require_role required_role user
            = Inl (HTTPException 403 (''R'' @ [CHR 0xF4] @ ''le requis: '' @ required_role)))"
proof
  assume "roles_of user = Some roles"
  then have "dict_get_default user ''roles'' (JList []) = JList roles"
    by (simp add: roles_of_def split: json.splits)
  then show "(require_role required_role user = Inr user
        \<longleftrightarrow> JStr required_role \<in> set roles \<or> JStr ''admin'' \<in> set roles)
     \<and> (\<not> (JStr required_role \<in> set roles \<or> JStr ''admin'' \<in> set roles) \<longrightarrow>
          require_role required_role user
            = Inl (HTTPException 403 (''R'' @ [CHR 0xF4] @ ''le requis: '' @ required_role)))"
    by (simp add: require_role_list role_required_def)
qed

theorem require_role_iff_witness:
  "roles_of [(''sub'', JStr ''u1''), (''roles'', JList [JStr ''reader''])] = Some [JStr ''reader'']
   \<and> require_role ''reader'' [(''sub'', JStr ''u1''), (''roles'', JList [JStr ''reader''])]
       = Inr [(''sub'', JStr ''u1''), (''roles'', JList [JStr ''reader''])]
   \<and> require_role ''writer'' [(''sub'', JStr ''u1''), (''roles'', JList [JStr ''reader''])]
       = Inl (HTTPException 403 (''R'' @ [CHR 0xF4] @ ''le requis: writer''))"
  using require_role_iff [of "[(''sub'', JStr ''u1''), (''roles'', JList [JStr ''reader''])]"
      "[JStr ''reader'']" "''reader''"]
    require_role_iff [of "[(''sub'', JStr ''u1''), (''roles'', JList [JStr ''reader''])]"
      "[JStr ''reader'']" "''writer''"]
  by (simp add: roles_of_def dict_get_default_def)

section \<open>Properties of token validation\<close>

lemmas example_defs = example_key_def example_jwks_def example_payload_def token_tag_def
  example_lib_def example_env_def cached_k1_def empty_cache_def

lemmas run_defs = validate_token_def validate_token_body_def get_jwks_def get_public_key_def
  build_public_key_def padded_field_def dict_get_def dict_get_default_def log_access_def
  key_not_found_def token_expired_def issuer_def unavailable_def

lemma get_jwks_fresh:
  "cache_fresh self now \<Longrightarrow> get_jwks self now provider = (Inr (jwks_cache self), self)"
  by (simp add: get_jwks_def cache_fresh_def)

lemma get_jwks_stale_ok:
  "\<not> cache_fresh self now \<Longrightarrow>
     get_jwks self now (Inr j) =
       (Inr j, self\<lparr>jwks_cache := j, jwks_cache_time := Some now, fetches := fetches self + 1\<rparr>)"
  by (auto simp: get_jwks_def cache_fresh_def)

lemma get_jwks_stale_fail:
  "\<not> cache_fresh self now \<Longrightarrow>
     get_jwks self now (Inl e) = (Inl unavailable, self\<lparr>fetches := fetches self + 1\<rparr>)"
  by (auto simp: get_jwks_def cache_fresh_def)

lemma get_jwks_fetches:
  "fetches (snd (get_jwks self now provider)) =
     (if cache_fresh self now then fetches self else fetches self + 1)"
  by (cases provider) (auto simp: get_jwks_def cache_fresh_def)

lemma validate_token_state:
  "snd (validate_token lib env self now provider now_exp token) =
     (case get_unverified_header lib token of
        Inl ex \<Rightarrow> self
      | Inr h \<Rightarrow> snd (get_jwks self now provider))"
  by (simp add: validate_token_def validate_token_body_def
      split: sum.splits prod.splits bool.splits)

lemma fresh_after_fetch:
  "get_unverified_header lib token = Inr hdr \<Longrightarrow> \<not> cache_fresh self now \<Longrightarrow> truthy fetched
   \<Longrightarrow> now2 - now < 3600 * 1000000
   \<Longrightarrow> cache_fresh (snd (validate_token lib env self now (Inr fetched) now_exp token)) now2"
  by (simp add: validate_token_state get_jwks_stale_ok cache_fresh_def)

lemma validate_token_except_401: "\<exists>d. validate_token_except ex = HTTPException 401 d"
  by (cases ex) (simp_all add: token_expired_def)

lemma validate_token_error_401:
  "fst (validate_token lib env self now provider now_exp token) = Inl ex \<Longrightarrow>
     \<exists>d. ex = HTTPException 401 d"
  using validate_token_except_401
  by (auto simp: validate_token_def split: sum.splits prod.splits)

lemma find_public_key_absent:
  "list_all (\<lambda>key. case key of JObj kd \<Rightarrow> dict_get kd ''kid'' \<noteq> kid | _ \<Rightarrow> False) keys \<Longrightarrow>
     find_public_key lib kid keys = Inl key_not_found"
  by (induction keys) (auto split: json.splits)

lemma get_public_key_absent:
  "truthy (dict_get hdr ''kid'') \<Longrightarrow> kid_absent (dict_get hdr ''kid'') jwks \<Longrightarrow>
     get_public_key lib hdr jwks = Inl key_not_found"
  by (auto simp: get_public_key_def kid_absent_def Let_def find_public_key_absent
      split: json.splits)


text \<open>
  Claim C2, as stated, fails.  The cache holds a key set with the key \<open>k1\<close> and is
  one second old; the identity provider now publishes \<open>k1\<close> and \<open>k2\<close>.  A token
  signed with \<open>k2\<close> is rejected and the state is unchanged: no fetch was sent, so no
  refresh was attempted.  The same token is accepted when the cache is empty and the
  key set is fetched: its key is absent from the cached set only, and it is rejected
  all the same.
\<close>

theorem no_forced_refresh_counterexample:
  "validate_token example_lib example_env cached_k1 1000000
      (Inr (example_jwks [''k1'', ''k2''])) 2000000 ''k2.valid''
     = (Inl (HTTPException 401 ''Erreur d'authentification''), cached_k1)
   \<and> fetches cached_k1 = 0
   \<and> fst (validate_token example_lib example_env empty_cache 1000000
      (Inr (example_jwks [''k1'', ''k2''])) 2000000 ''k2.valid'') = Inr (example_payload 1000)"
  by (simp add: example_defs run_defs)

text \<open>
  Claim C2, amended.  The signing key is looked up only in the key set that
  \<open>get_jwks\<close> returns, the cached one on a cache hit and the fetched one otherwise.
  When the token's header parses, its key identifier is not empty, and no key of that
  set has the identifier, the lookup fails with the HTTP 401 exception of a key not
  found and the validation is rejected with HTTP 401.  No forced refresh is attempted:
  on a cache hit the state is left as it was and no fetch is sent, and otherwise the
  one fetch of \<open>get_jwks\<close> is the only one.
\<close>

theorem unknown_key_rejected:
  "get_unverified_header lib token = Inr hdr \<and> truthy (dict_get hdr ''kid'')
     \<and> get_jwks self now provider = (Inr jwks, self')
     \<and> kid_absent (dict_get hdr ''kid'') jwks \<longrightarrow>
   get_public_key lib hdr jwks = Inl key_not_found
   \<and> (\<exists>d. validate_token lib env self now provider now_exp token
            = (Inl (HTTPException 401 d), self'))
   \<and> (cache_fresh self now \<longrightarrow> self' = self)
   \<and> fetches self' = (if cache_fresh self now then fetches self else fetches self + 1)"
proof
  assume a: "get_unverified_header lib token = Inr hdr \<and> truthy (dict_get hdr ''kid'')
     \<and> get_jwks self now provider = (Inr jwks, self')
     \<and> kid_absent (dict_get hdr ''kid'') jwks"
  then have k: "get_public_key lib hdr jwks = Inl key_not_found"
    by (simp add: get_public_key_absent)
  have v: "validate_token lib env self now provider now_exp token
      = (Inl (validate_token_except key_not_found), self')"
    using a k by (simp add: validate_token_def validate_token_body_def)
  have f: "fetches self' = (if cache_fresh self now then fetches self else fetches self + 1)"
    using a get_jwks_fetches [of self now provider] by simp
  have h: "cache_fresh self now \<longrightarrow> self' = self"
    using a get_jwks_fresh [of self now provider] by auto
  show "get_public_key lib hdr jwks = Inl key_not_found
   \<and> (\<exists>d. validate_token lib env self now provider now_exp token
            = (Inl (HTTPException 401 d), self'))
   \<and> (cache_fresh self now \<longrightarrow> self' = self)
   \<and> fetches self' = (if cache_fresh self now then fetches self else fetches self + 1)"
    using k v f h by (simp add: key_not_found_def)
qed

theorem unknown_key_rejected_witness:
  "(get_unverified_header example_lib ''k2.valid''
        = Inr [(''alg'', JStr ''RS256''), (''kid'', JStr ''k2'')]
     \<and> truthy (dict_get [(''alg'', JStr ''RS256''), (''kid'', JStr ''k2'')] ''kid'')
     \<and> get_jwks cached_k1 1000000 (Inr (example_jwks [''k1'', ''k2'']))
         = (Inr (example_jwks [''k1'']), cached_k1)
     \<and> kid_absent (dict_get [(''alg'', JStr ''RS256''), (''kid'', JStr ''k2'')] ''kid'')
         (example_jwks [''k1'']))
   \<and> cache_fresh cached_k1 1000000
   \<and> get_public_key example_lib [(''alg'', JStr ''RS256''), (''kid'', JStr ''k2'')]
        (example_jwks [''k1'']) = Inl key_not_found
   \<and> (\<exists>d. validate_token example_lib example_env cached_k1 1000000
          (Inr (example_jwks [''k1'', ''k2''])) 2000000 ''k2.valid''
          = (Inl (HTTPException 401 d), cached_k1))
   \<and> fetches cached_k1 = 0"
proof -
  have p: "get_unverified_header example_lib ''k2.valid''
        = Inr [(''alg'', JStr ''RS256''), (''kid'', JStr ''k2'')]
     \<and> truthy (dict_get [(''alg'', JStr ''RS256''), (''kid'', JStr ''k2'')] ''kid'')
     \<and> get_jwks cached_k1 1000000 (Inr (example_jwks [''k1'', ''k2'']))
         = (Inr (example_jwks [''k1'']), cached_k1)
     \<and> kid_absent (dict_get [(''alg'', JStr ''RS256''), (''kid'', JStr ''k2'')] ''kid'')
         (example_jwks [''k1''])"
    by (simp add: example_defs kid_absent_def get_jwks_def dict_get_def dict_get_default_def)
  have f: "cache_fresh cached_k1 1000000 \<and> fetches cached_k1 = 0"
    by (simp add: example_defs cache_fresh_def)
  note c = mp [OF unknown_key_rejected p, of example_env 2000000]
  show ?thesis
    using p f c by blast
qed

text \<open>
  Claim C3, as stated, fails.  With an empty cache, the validation of a token whose
  header does not parse sends no fetch: the header is read before the key set.  When
  the fetch fails, one fetch was sent but the cache holds no fetched key set: it is as
  empty as before.  And when the cached value is the empty object, two validations
  one and two seconds after its timestamp send two fetches.
\<close>

theorem key_cache_counterexample:
  "\<not> cache_fresh empty_cache 1000000
   \<and> validate_token example_lib example_env empty_cache 1000000
        (Inr (example_jwks [''k1''])) 2000000 ''garbage''
       = (Inl (HTTPException 401 ''Token invalide''), empty_cache)
   \<and> fetches empty_cache = 0
   \<and> validate_token example_lib example_env empty_cache 1000000
        (Inl (OtherError ''timed out'')) 2000000 ''k1.valid''
       = (Inl (HTTPException 401 ''Erreur d'authentification''), empty_cache\<lparr>fetches := 1\<rparr>)
   \<and> fetches cached_nothing = 0
   \<and> fetches (snd (validate_token example_lib example_env
        (snd (validate_token example_lib example_env cached_nothing 1000000 (Inr (JObj []))
           1000000 ''k1.valid''))
        2000000 (Inr (JObj [])) 2000000 ''k1.valid'')) = 2"
  by (simp add: example_defs cached_nothing_def run_defs cache_fresh_def)

text \<open>
  Claim C3, amended.  Of two validations, the second made while the cache, as the
  first left it, is within its freshness window (not empty, less than 3600 seconds
  old), at most one sends a fetch.  And every validation whose token header parses,
  made when the cache is not fresh (no timestamp, a timestamp 3600 seconds old or
  more, or an empty cache), sends exactly one fetch; when that fetch succeeds the
  cache then holds the fetched key set with the time of the validation, and when it
  fails the cache and its timestamp are as before.
\<close>

theorem key_cache_fetches:
  "(validate_token lib env self now1 provider1 now_exp1 token1 = (r1, self1)
      \<and> validate_token lib env self1 now2 provider2 now_exp2 token2 = (r2, self2)
      \<and> cache_fresh self1 now2 \<longrightarrow> fetches self2 \<le> fetches self + 1)
   \<and> (get_unverified_header lib token = Inr hdr \<and> \<not> cache_fresh self now
      \<and> validate_token lib env self now provider now_exp token = (r, self') \<longrightarrow>
        fetches self' = fetches self + 1
        \<and> (\<forall>fetched. provider = Inr fetched \<longrightarrow>
              jwks_cache self' = fetched \<and> jwks_cache_time self' = Some now)
        \<and> (\<forall>e. provider = Inl e \<longrightarrow>
              jwks_cache self' = jwks_cache self \<and> jwks_cache_time self' = jwks_cache_time self))"
proof (rule conjI)
  show "validate_token lib env self now1 provider1 now_exp1 token1 = (r1, self1)
      \<and> validate_token lib env self1 now2 provider2 now_exp2 token2 = (r2, self2)
      \<and> cache_fresh self1 now2 \<longrightarrow> fetches self2 \<le> fetches self + 1"
  proof (rule impI)
    assume a: "validate_token lib env self now1 provider1 now_exp1 token1 = (r1, self1)
      \<and> validate_token lib env self1 now2 provider2 now_exp2 token2 = (r2, self2)
      \<and> cache_fresh self1 now2"
    have s1: "self1 = snd (validate_token lib env self now1 provider1 now_exp1 token1)"
      using a by simp
    have s2: "self2 = snd (validate_token lib env self1 now2 provider2 now_exp2 token2)"
      using a by simp
    have first: "fetches self1 \<le> fetches self + 1"
      unfolding s1 validate_token_state
      using get_jwks_fetches [of self now1 provider1] by (simp split: sum.splits)
    have second: "fetches self2 = fetches self1"
      unfolding s2 validate_token_state
      using a get_jwks_fetches [of self1 now2 provider2] by (simp split: sum.splits)
    show "fetches self2 \<le> fetches self + 1"
      using first second by simp
  qed
next
  show "get_unverified_header lib token = Inr hdr \<and> \<not> cache_fresh self now
      \<and> validate_token lib env self now provider now_exp token = (r, self') \<longrightarrow>
        fetches self' = fetches self + 1
        \<and> (\<forall>fetched. provider = Inr fetched \<longrightarrow>
              jwks_cache self' = fetched \<and> jwks_cache_time self' = Some now)
        \<and> (\<forall>e. provider = Inl e \<longrightarrow>
              jwks_cache self' = jwks_cache self \<and> jwks_cache_time self' = jwks_cache_time self)"
  proof (rule impI)
    assume b: "get_unverified_header lib token = Inr hdr \<and> \<not> cache_fresh self now
      \<and> validate_token lib env self now provider now_exp token = (r, self')"
    have s: "self' = snd (get_jwks self now provider)"
      using b validate_token_state [of lib env self now provider now_exp token] by simp
    show "fetches self' = fetches self + 1
        \<and> (\<forall>fetched. provider = Inr fetched \<longrightarrow>
              jwks_cache self' = fetched \<and> jwks_cache_time self' = Some now)
        \<and> (\<forall>e. provider = Inl e \<longrightarrow>
              jwks_cache self' = jwks_cache self \<and> jwks_cache_time self' = jwks_cache_time self)"
      using b by (auto simp: s get_jwks_stale_ok get_jwks_stale_fail get_jwks_fetches)
  qed
qed

theorem key_cache_fetches_witness:
  "(validate_token example_lib example_env empty_cache 1000000 (Inr (example_jwks [''k1'']))
        2000000 ''k1.valid'' = (Inr (example_payload 1000), fetched_k1)
     \<and> validate_token example_lib example_env fetched_k1 5000000 (Inr (example_jwks [''k1'', ''k2'']))
        6000000 ''k1.valid'' = (Inr (example_payload 1000), fetched_k1)
     \<and> cache_fresh fetched_k1 5000000)
   \<and> fetches fetched_k1 \<le> fetches empty_cache + 1
   \<and> (get_unverified_header example_lib ''k1.valid''
        = Inr [(''alg'', JStr ''RS256''), (''kid'', JStr ''k1'')]
     \<and> \<not> cache_fresh empty_cache 1000000)
   \<and> jwks_cache fetched_k1 = example_jwks [''k1'']
   \<and> jwks_cache_time fetched_k1 = Some 1000000"
proof -
  have p1: "validate_token example_lib example_env empty_cache 1000000 (Inr (example_jwks [''k1'']))
        2000000 ''k1.valid'' = (Inr (example_payload 1000), fetched_k1)
     \<and> validate_token example_lib example_env fetched_k1 5000000 (Inr (example_jwks [''k1'', ''k2'']))
        6000000 ''k1.valid'' = (Inr (example_payload 1000), fetched_k1)
     \<and> cache_fresh fetched_k1 5000000"
    by (simp add: example_defs run_defs fetched_k1_def cache_fresh_def)
  have h: "get_unverified_header example_lib ''k1.valid''
        = Inr [(''alg'', JStr ''RS256''), (''kid'', JStr ''k1'')]
     \<and> \<not> cache_fresh empty_cache 1000000"
    by (simp add: example_defs cache_fresh_def)
  have p2: "get_unverified_header example_lib ''k1.valid''
        = Inr [(''alg'', JStr ''RS256''), (''kid'', JStr ''k1'')]
     \<and> \<not> cache_fresh empty_cache 1000000
     \<and> validate_token example_lib example_env empty_cache 1000000 (Inr (example_jwks [''k1'']))
        2000000 ''k1.valid'' = (Inr (example_payload 1000), fetched_k1)"
    using p1 h by simp
  note t = key_cache_fetches [where lib = example_lib and env = example_env
      and self = empty_cache and ?now1.0 = 1000000 and ?provider1.0 = "Inr (example_jwks [''k1''])"
      and ?now_exp1.0 = 2000000 and ?token1.0 = "''k1.valid''"
      and ?r1.0 = "Inr (example_payload 1000)" and ?self1.0 = fetched_k1
      and ?now2.0 = 5000000 and ?provider2.0 = "Inr (example_jwks [''k1'', ''k2''])"
      and ?now_exp2.0 = 6000000 and ?token2.0 = "''k1.valid''"
      and ?r2.0 = "Inr (example_payload 1000)" and ?self2.0 = fetched_k1
      and token = "''k1.valid''" and hdr = "[(''alg'', JStr ''RS256''), (''kid'', JStr ''k1'')]"
      and now = 1000000 and provider = "Inr (example_jwks [''k1''])" and now_exp = 2000000
      and r = "Inr (example_payload 1000)" and self' = fetched_k1]
  have c1: "fetches fetched_k1 \<le> fetches empty_cache + 1"
    using t p1 by blast
  have c2: "jwks_cache fetched_k1 = example_jwks [''k1'']
      \<and> jwks_cache_time fetched_k1 = Some 1000000"
    using t p2 by blast
  show ?thesis
    using p1 c1 h c2 by blast
qed

text \<open>
  Claim C4, as stated, fails.  A token whose signature the decoder rejects is refused
  with the detail \<open>Token invalide\<close>, not with the token-expired error, whenever it
  expires.  And a token whose decoded expiry equals the current time is not strictly
  in the future, yet the validation returns its payload: the code tests
  \<open>exp < now\<close>.
\<close>

theorem expiry_counterexample:
  "validate_token example_lib example_env cached_k1 1000000 (Inr (example_jwks [''k1'']))
      (2000 * 1000000) ''k1.bad-signature''
     = (Inl (HTTPException 401 ''Token invalide''), cached_k1)
   \<and> HTTPException 401 ''Token invalide'' \<noteq> token_expired
   \<and> dict_get_default (example_payload 1000) ''exp'' (JInt 0) = JInt 1000
   \<and> validate_token example_lib example_env cached_k1 1000000 (Inr (example_jwks [''k1'']))
      (1000 * 1000000) ''k1.valid''
     = (Inr (example_payload 1000), cached_k1)"
  by (simp add: example_defs run_defs)

text \<open>
  One microsecond after the expiry, the \<open>HTTPException\<close> that line 149 raises is caught
  by the last \<open>except\<close> of the same function, and the caller gets another detail.
\<close>

lemma expired_detail_rewritten:
  "validate_token example_lib example_env cached_k1 1000000 (Inr (example_jwks [''k1'']))
      (1000 * 1000000 + 1) ''k1.valid''
     = (Inl (HTTPException 401 ''Erreur d'authentification''), cached_k1)"
  by (simp add: example_defs run_defs)

text \<open>
  Claim C4, amended.  For every token whose header parses and whose signing key is
  found: when the decoder reports the token expired, the validation fails with HTTP
  401 and the detail of \<open>token_expired\<close>; when the decoder rejects the token for
  another reason, a wrong signature among them, the validation fails with HTTP 401
  and the detail \<open>Token invalide\<close>, whatever the expiry; when the decoder accepts the
  token and the decoded expiry (0 when absent) is strictly before the current time,
  the validation fails with HTTP 401.
\<close>

theorem expired_token_rejected:
  "get_unverified_header lib token = Inr hdr
     \<and> get_jwks self now provider = (Inr jwks, self')
     \<and> get_public_key lib hdr jwks = Inr public_key \<longrightarrow>
   (\<forall>m. decode lib token public_key (AZURE_AD_CLIENT_ID env) (issuer env)
           = Inl (ExpiredSignatureError m) \<longrightarrow>
        validate_token lib env self now provider now_exp token = (Inl token_expired, self'))
   \<and> (\<forall>m. decode lib token public_key (AZURE_AD_CLIENT_ID env) (issuer env)
           = Inl (InvalidTokenError m) \<longrightarrow>
        validate_token lib env self now provider now_exp token
          = (Inl (HTTPException 401 ''Token invalide''), self'))
   \<and> (\<forall>payload e. decode lib token public_key (AZURE_AD_CLIENT_ID env) (issuer env) = Inr payload
           \<and> dict_get_default payload ''exp'' (JInt 0) = JInt e \<and> e * 1000000 < now_exp \<longrightarrow>
        (\<exists>d. validate_token lib env self now provider now_exp token
               = (Inl (HTTPException 401 d), self')))"
  by (auto simp: validate_token_def validate_token_body_def token_expired_def)

theorem expired_token_rejected_witness:
  "(get_unverified_header example_lib ''k1.expired''
        = Inr [(''alg'', JStr ''RS256''), (''kid'', JStr ''k1'')]
     \<and> get_jwks cached_k1 1000000 (Inr (example_jwks [''k1'']))
         = (Inr (example_jwks [''k1'']), cached_k1)
     \<and> get_public_key example_lib [(''alg'', JStr ''RS256''), (''kid'', JStr ''k1'')]
         (example_jwks [''k1'']) = Inr ''PEM AQAB=='')
   \<and> decode example_lib ''k1.expired'' ''PEM AQAB=='' (AZURE_AD_CLIENT_ID example_env)
        (issuer example_env) = Inl (ExpiredSignatureError ''Signature has expired'')
   \<and> validate_token example_lib example_env cached_k1 1000000 (Inr (example_jwks [''k1'']))
        (2000 * 1000000) ''k1.expired'' = (Inl token_expired, cached_k1)
   \<and> (get_unverified_header example_lib ''k1.valid''
        = Inr [(''alg'', JStr ''RS256''), (''kid'', JStr ''k1'')]
     \<and> get_jwks cached_k1 1000000 (Inr (example_jwks [''k1'']))
         = (Inr (example_jwks [''k1'']), cached_k1)
     \<and> get_public_key example_lib [(''alg'', JStr ''RS256''), (''kid'', JStr ''k1'')]
         (example_jwks [''k1'']) = Inr ''PEM AQAB=='')
   \<and> (decode example_lib ''k1.valid'' ''PEM AQAB=='' (AZURE_AD_CLIENT_ID example_env)
        (issuer example_env) = Inr (example_payload 1000)
     \<and> dict_get_default (example_payload 1000) ''exp'' (JInt 0) = JInt 1000
     \<and> 1000 * 1000000 < (2000 * 1000000 :: int))
   \<and> (\<exists>d. validate_token example_lib example_env cached_k1 1000000 (Inr (example_jwks [''k1'']))
        (2000 * 1000000) ''k1.valid'' = (Inl (HTTPException 401 d), cached_k1))"
proof -
  have p1: "get_unverified_header example_lib ''k1.expired''
        = Inr [(''alg'', JStr ''RS256''), (''kid'', JStr ''k1'')]
     \<and> get_jwks cached_k1 1000000 (Inr (example_jwks [''k1'']))
         = (Inr (example_jwks [''k1'']), cached_k1)
     \<and> get_public_key example_lib [(''alg'', JStr ''RS256''), (''kid'', JStr ''k1'')]
         (example_jwks [''k1'']) = Inr ''PEM AQAB==''"
    by (simp add: example_defs run_defs)
  have d1: "decode example_lib ''k1.expired'' ''PEM AQAB=='' (AZURE_AD_CLIENT_ID example_env)
        (issuer example_env) = Inl (ExpiredSignatureError ''Signature has expired'')"
    by (simp add: example_defs)
  have c1: "validate_token example_lib example_env cached_k1 1000000 (Inr (example_jwks [''k1'']))
        (2000 * 1000000) ''k1.expired'' = (Inl token_expired, cached_k1)"
    using mp [OF expired_token_rejected p1, of example_env "2000 * 1000000"] d1 by blast
  have p2: "get_unverified_header example_lib ''k1.valid''
        = Inr [(''alg'', JStr ''RS256''), (''kid'', JStr ''k1'')]
     \<and> get_jwks cached_k1 1000000 (Inr (example_jwks [''k1'']))
         = (Inr (example_jwks [''k1'']), cached_k1)
     \<and> get_public_key example_lib [(''alg'', JStr ''RS256''), (''kid'', JStr ''k1'')]
         (example_jwks [''k1'']) = Inr ''PEM AQAB==''"
    by (simp add: example_defs run_defs)
  have d2: "decode example_lib ''k1.valid'' ''PEM AQAB=='' (AZURE_AD_CLIENT_ID example_env)
        (issuer example_env) = Inr (example_payload 1000)
     \<and> dict_get_default (example_payload 1000) ''exp'' (JInt 0) = JInt 1000
     \<and> 1000 * 1000000 < (2000 * 1000000 :: int)"
    by (simp add: example_defs dict_get_default_def)
  have c2: "\<exists>d. validate_token example_lib example_env cached_k1 1000000 (Inr (example_jwks [''k1'']))
        (2000 * 1000000) ''k1.valid'' = (Inl (HTTPException 401 d), cached_k1)"
    using mp [OF expired_token_rejected p2, of example_env "2000 * 1000000"] d2 by blast
  show ?thesis
    using p1 d1 c1 p2 d2 c2 by blast
qed

end
